theory Spec2Isabelle
  imports Main
begin

text \<open>
  A shallow embedding of the passport strategy \<^verbatim>\<open>GoogleTokenStrategy\<close> of
  \<^verbatim>\<open>src/index.js\<close>: its constructor and its methods \<^verbatim>\<open>authenticate\<close>,
  \<^verbatim>\<open>userProfile\<close> and \<^verbatim>\<open>loadUserProfile\<close>. The collaborators of the strategy (the
  OAuth2 client, the base class, the application's \<^verbatim>\<open>verify\<close> function, the skip
  predicate, \<^verbatim>\<open>JSON.parse\<close>) are parameters; what the strategy does to them and to the
  host framework is recorded as a list of events.
\<close>

section \<open>JavaScript values\<close>

text \<open>
  The strategy of \<^verbatim>\<open>src/index.js\<close> handles untyped JavaScript values: request
  fields, tokens, the provider's JSON, error objects. They are modelled by one datatype.
  Numbers are restricted to integers (no fractions, no NaN); an object is the list of its
  own properties. The three error kinds are the ones the code meets: the TypeError of a
  property read on \<^verbatim>\<open>undefined\<close> or \<^verbatim>\<open>null\<close> (it carries the name of the
  property that was read), the SyntaxError of \<^verbatim>\<open>JSON.parse\<close>, and the
  \<^verbatim>\<open>InternalOAuthError(message, cause)\<close> of passport-oauth.
\<close>

datatype jsval =
    JUndefined
  | JNull
  | JBool bool
  | JNum int
  | JStr string
  | JArr "jsval list"
  | JObj "(string \<times> jsval) list"
  | JTypeError string
  | JSyntaxError string
  | JInternalOAuthError string jsval

text \<open>JavaScript truthiness, as \<^verbatim>\<open>if (x)\<close>, \<^verbatim>\<open>!x\<close> and \<^verbatim>\<open>x || y\<close> test it.\<close>

fun truthy :: "jsval \<Rightarrow> bool" where
  "truthy JUndefined = False"
| "truthy JNull = False"
| "truthy (JBool b) = b"
| "truthy (JNum n) = (n \<noteq> 0)"
| "truthy (JStr s) = (s \<noteq> [])"
| "truthy (JArr xs) = True"
| "truthy (JObj kvs) = True"
| "truthy (JTypeError m) = True"
| "truthy (JSyntaxError m) = True"
| "truthy (JInternalOAuthError m c) = True"

text \<open>
  \<^verbatim>\<open>x.k\<close> for the keys the code reads (none of them is a property of a prototype):
  the own property of an object, \<^verbatim>\<open>undefined\<close> on an object without it and on every
  other value that has properties at all.
\<close>

fun read_prop :: "jsval \<Rightarrow> string \<Rightarrow> jsval" where
  "read_prop (JObj kvs) k = (case map_of kvs k of None \<Rightarrow> JUndefined | Some v \<Rightarrow> v)"
| "read_prop v k = JUndefined"

text \<open>A property read throws a TypeError on \<^verbatim>\<open>undefined\<close> and \<^verbatim>\<open>null\<close>.\<close>

fun get_prop :: "jsval \<Rightarrow> string \<Rightarrow> jsval + jsval" where
  "get_prop JUndefined k = Inl (JTypeError k)"
| "get_prop JNull k = Inl (JTypeError k)"
| "get_prop v k = Inr (read_prop v k)"

text \<open>Sequencing of computations that may throw: the first exception wins.\<close>

fun and_then :: "jsval + 'a \<Rightarrow> ('a \<Rightarrow> jsval + 'b) \<Rightarrow> jsval + 'b" where
  "and_then (Inl e) f = Inl e"
| "and_then (Inr v) f = f v"

section \<open>The data of the strategy\<close>

text \<open>The inbound request: the three fields \<^verbatim>\<open>authenticate\<close> reads.\<close>

record request =
  query :: jsval
  body :: jsval
  headers :: jsval

text \<open>The normalized profile built by \<^verbatim>\<open>userProfile\<close> (lines 119-133).\<close>

datatype value_object = ValueObject (val: jsval)

record name_parts =
  familyName :: jsval
  givenName :: jsval
  middleName :: jsval

record profile =
  provider :: jsval
  profile_id :: jsval
  displayName :: jsval
  name :: name_parts
  gender :: jsval
  emails :: "value_object list"
  photos :: "value_object list"
  profile_json :: jsval
  profile_raw :: jsval

text \<open>
  The arguments of one call of the application's \<^verbatim>\<open>verify\<close> function; the request
  is present only in the \<^verbatim>\<open>passReqToCallback\<close> signature. A call of \<^verbatim>\<open>verify\<close>
  ends in one of three ways: it completes through \<^verbatim>\<open>done(err, user, info)\<close>, it
  throws, or it never completes.
\<close>

record verify_args =
  v_req :: "request option"
  v_accessToken :: jsval
  v_refreshToken :: jsval
  v_profile :: "profile option"

datatype verify_result =
    CallsDone jsval jsval jsval
  | VerifyThrows jsval
  | NoCompletion

text \<open>
  The \<^verbatim>\<open>skipUserProfile\<close> setting: a value that is not a function, or a function.
  Of a function the code inspects the declared number of parameters (\<^verbatim>\<open>.length\<close>);
  the model carries it together with what the function does in each of the two ways the
  code calls it: called with no argument it throws (\<open>Inl\<close>) or returns a value, called
  with \<^verbatim>\<open>(accessToken, callback)\<close> it passes \<^verbatim>\<open>(err, skip)\<close> to the callback.
\<close>

datatype skip_setting =
    SkipValue jsval
  | SkipFunction nat "jsval + jsval" "jsval \<Rightarrow> jsval \<times> jsval"

text \<open>
  What the host framework and the collaborators observe of one authentication attempt,
  in order: a GET of the OAuth2 client, a call of \<^verbatim>\<open>verify\<close>, and the three outcome
  signals \<^verbatim>\<open>this.success(user, info)\<close>, \<^verbatim>\<open>this.fail(info)\<close> and
  \<^verbatim>\<open>this.error(err)\<close>. \<^verbatim>\<open>this.fail()\<close> without an argument is
  \<open>SignalFail JUndefined\<close>.
\<close>

datatype event =
    OAuthGet string jsval
  | VerifyCalled verify_args
  | SignalSuccess jsval jsval
  | SignalFail jsval
  | SignalError jsval

text \<open>
  A run of the code: the events it produced, and the exception that escaped it, if any
  (from \<^verbatim>\<open>authenticate\<close> itself or from a callback it registered). A callback is
  run at the point where the collaborator that calls it is invoked; whether that call
  happens in the same turn of the event loop or in a later one changes neither the events
  nor their order.
\<close>

type_synonym run = "event list \<times> jsval option"

definition emit :: "event list \<Rightarrow> run \<Rightarrow> run" where
  "emit evs r = (evs @ fst r, snd r)"

text \<open>
  The strategy object. \<^verbatim>\<open>_oauth2\<close>, \<^verbatim>\<open>_skipUserProfile\<close> and
  \<^verbatim>\<open>_passReqToCallback\<close> are set by the base class of passport-oauth; the field
  names drop the leading underscore. \<open>oauth2_get url token\<close> is the \<^verbatim>\<open>(err, body)\<close>
  that \<^verbatim>\<open>this._oauth2.get(url, token, callback)\<close> passes to its callback.
\<close>

record strategy =
  options :: "(string \<times> jsval) list"
  verify :: "verify_args \<Rightarrow> verify_result"
  strategy_name :: string
  oauth2_get :: "string \<Rightarrow> jsval \<Rightarrow> jsval \<times> jsval"
  skipUserProfile :: skip_setting
  passReqToCallback :: jsval

text \<open>
  A JavaScript function value takes its receiver as an implicit argument. The completion
  callback \<^verbatim>\<open>done(err, profile)\<close> is modelled with the receiver first: \<open>None\<close> is
  \<^verbatim>\<open>this === undefined\<close>, which is what a plain call \<^verbatim>\<open>done(...)\<close> gives a
  \<^verbatim>\<open>function\<close> expression in strict code (a class body is strict). A missing
  argument is \<^verbatim>\<open>undefined\<close>: \<open>JUndefined\<close> for the error, \<open>None\<close> for the
  profile.
\<close>

type_synonym callback = "strategy option \<Rightarrow> jsval \<Rightarrow> profile option \<Rightarrow> run"

section \<open>The constructor (lines 40-49)\<close>

text \<open>
  The \<^verbatim>\<open>options\<close> argument: an object, as the type declaration of the package has
  it, or one of the two values a caller can pass for a missing object.
\<close>

datatype options_arg = OptUndefined | OptNull | OptObject "(string \<times> jsval) list"

fun options_value :: "options_arg \<Rightarrow> jsval" where
  "options_value OptUndefined = JUndefined"
| "options_value OptNull = JNull"
| "options_value (OptObject kvs) = JObj kvs"

definition default_authorizationURL :: string where
  "default_authorizationURL = ''https://accounts.google.com/o/oauth2/auth''"

definition default_tokenURL :: string where
  "default_tokenURL = ''https://accounts.google.com/o/oauth2/token''"

text \<open>\<^verbatim>\<open>a || b\<close> on values.\<close>

definition js_or :: "jsval \<Rightarrow> jsval \<Rightarrow> jsval" where
  "js_or a b = (if truthy a then a else b)"

text \<open>\<^verbatim>\<open>o.k = v\<close> on the property list of an object.\<close>

definition set_prop :: "(string \<times> jsval) list \<Rightarrow> string \<Rightarrow> jsval \<Rightarrow> (string \<times> jsval) list" where
  "set_prop kvs k v = (if k \<in> fst ` set kvs then map (\<lambda>(k', v'). if k' = k then (k', v) else (k', v')) kvs
                       else kvs @ [(k, v)])"

text \<open>
  \<open>super_ctor\<close> is the constructor of \<^verbatim>\<open>OAuth2Strategy\<close> (passport-oauth), which
  throws or initialises the fields of the base class. \<^verbatim>\<open>_options\<close> is the argument
  itself when that is an object and a fresh object otherwise; the two URL defaults are
  read from the argument \<^verbatim>\<open>options\<close>, not from \<^verbatim>\<open>_options\<close>.
\<close>

definition constructor ::
  "((string \<times> jsval) list \<Rightarrow> (verify_args \<Rightarrow> verify_result) \<Rightarrow> jsval + strategy) \<Rightarrow>
   options_arg \<Rightarrow> (verify_args \<Rightarrow> verify_result) \<Rightarrow> jsval + strategy" where
  "constructor super_ctor opts vfy =
     (let opts0 = (case opts of OptObject kvs \<Rightarrow> kvs | _ \<Rightarrow> []) in
      and_then (get_prop (options_value opts) ''authorizationURL'') (\<lambda>a.
        let opts1 = set_prop opts0 ''authorizationURL'' (js_or a (JStr default_authorizationURL)) in
        and_then (get_prop (options_value opts) ''tokenURL'') (\<lambda>t.
          let opts2 = set_prop opts1 ''tokenURL'' (js_or t (JStr default_tokenURL)) in
          and_then (super_ctor opts2 vfy) (\<lambda>s.
            Inr (s\<lparr>options := opts2, verify := vfy, strategy_name := ''google-token''\<rparr>)))))"

section \<open>userProfile (lines 110-140)\<close>

definition userinfo_url :: string where
  "userinfo_url = ''https://www.googleapis.com/oauth2/v2/userinfo''"

text \<open>
  The object literal of lines 119-133. Its property reads run in the order of the
  literal; on a parsed \<^verbatim>\<open>null\<close> the first of them throws.
\<close>

definition make_profile :: "jsval \<Rightarrow> jsval \<Rightarrow> jsval + profile" where
  "make_profile json raw =
     and_then (get_prop json ''id'') (\<lambda>v_id.
     and_then (get_prop json ''name'') (\<lambda>v_name.
     and_then (get_prop json ''family_name'') (\<lambda>v_family.
     and_then (get_prop json ''given_name'') (\<lambda>v_given.
     and_then (get_prop json ''middle_name'') (\<lambda>v_middle.
     and_then (get_prop json ''gender'') (\<lambda>v_gender.
     and_then (get_prop json ''email'') (\<lambda>v_email.
     and_then (get_prop json ''picture'') (\<lambda>v_picture.
       Inr \<lparr> provider = JStr ''google'',
             profile_id = v_id,
             displayName = v_name,
             name = \<lparr> familyName = v_family, givenName = v_given, middleName = v_middle \<rparr>,
             gender = v_gender,
             emails = [ValueObject v_email],
             photos = [ValueObject v_picture],
             profile_json = json,
             profile_raw = raw \<rparr>))))))))"

text \<open>
  \<^verbatim>\<open>done(null, profile)\<close> stands inside the \<^verbatim>\<open>try\<close> block (line 135): an exception
  that escapes the callback is caught and handed to the callback again (line 137).
\<close>

definition deliver :: "callback \<Rightarrow> profile \<Rightarrow> run" where
  "deliver done p =
     (case done None JNull (Some p) of
        (evs, None) \<Rightarrow> (evs, None)
      | (evs, Some e) \<Rightarrow> emit evs (done None e None))"

text \<open>
  \<open>parse\<close> is \<^verbatim>\<open>JSON.parse\<close>: it throws (\<open>Inl\<close>) or returns the parsed value.
  \<^verbatim>\<open>
  this._oauth2.get('https://www.googleapis.com/oauth2/v2/userinfo', accessToken, (err, body) => {
    if (err) {
      return done(new InternalOAuthError('failed to fetch user profile', err));
    }
    try {
      const json = JSON.parse(body);
      const profile = { ... };
      done(null, profile);
    } catch (e) {
      done(e);
    }
  });
  \<close>
\<close>

definition userProfile :: "strategy \<Rightarrow> (jsval \<Rightarrow> jsval + jsval) \<Rightarrow> jsval \<Rightarrow> callback \<Rightarrow> run" where
  "userProfile this parse accessToken done =
     (case oauth2_get this userinfo_url accessToken of (err, resp_body) \<Rightarrow>
        emit [OAuthGet userinfo_url accessToken]
          (if truthy err
           then done None (JInternalOAuthError ''failed to fetch user profile'' err) None
           else (case parse resp_body of
                   Inl e \<Rightarrow> done None e None
                 | Inr json \<Rightarrow>
                     (case make_profile json resp_body of
                        Inl e \<Rightarrow> done None e None
                      | Inr p \<Rightarrow> deliver done p))))"

section \<open>loadUserProfile (lines 149-169)\<close>

text \<open>
  \<^verbatim>\<open>
  if (typeof this._skipUserProfile === 'function' && this._skipUserProfile.length > 1) {
    this._skipUserProfile(accessToken, (err, skip) => {
      if (err) { return done(err); }
      if (!skip) { return this.userProfile(accessToken, done); }
      return done(null);
    });
  } else {
    const skip = typeof this._skipUserProfile === 'function'
      ? this._skipUserProfile() : this._skipUserProfile;
    if (!skip) { return this.userProfile(accessToken, done); }
    return done(null);
  }
  \<close>
\<close>

definition loadUserProfile :: "strategy \<Rightarrow> (jsval \<Rightarrow> jsval + jsval) \<Rightarrow> jsval \<Rightarrow> callback \<Rightarrow> run" where
  "loadUserProfile this parse accessToken done =
     (case skipUserProfile this of
        SkipFunction n on_call on_call_cb \<Rightarrow>
          (if n > 1
           then (case on_call_cb accessToken of (err, skip) \<Rightarrow>
                   if truthy err then done None err None
                   else if \<not> truthy skip then userProfile this parse accessToken done
                   else done None JNull None)
           else (case on_call of
                   Inl e \<Rightarrow> ([], Some e)
                 | Inr skip \<Rightarrow>
                     if \<not> truthy skip then userProfile this parse accessToken done
                     else done None JNull None))
      | SkipValue skip \<Rightarrow>
          if \<not> truthy skip then userProfile this parse accessToken done
          else done None JNull None)"

section \<open>authenticate (lines 57-94)\<close>

text \<open>
  The nested function \<^verbatim>\<open>verified(err, user, info)\<close> of lines 76-86, with its
  receiver. Reading a method of an undefined receiver throws the TypeError.
\<close>

definition verified :: "strategy option \<Rightarrow> jsval \<Rightarrow> jsval \<Rightarrow> jsval \<Rightarrow> run" where
  "verified this err user info =
     (if truthy err
      then (case this of None \<Rightarrow> ([], Some (JTypeError ''error''))
                       | Some s \<Rightarrow> ([SignalError err], None))
      else if \<not> truthy user
      then (case this of None \<Rightarrow> ([], Some (JTypeError ''fail''))
                       | Some s \<Rightarrow> ([SignalFail info], None))
      else (case this of None \<Rightarrow> ([], Some (JTypeError ''success''))
                       | Some s \<Rightarrow> ([SignalSuccess user info], None)))"

text \<open>
  The \<^verbatim>\<open>function (err, profile)\<close> expression of lines 71-93 that \<^verbatim>\<open>authenticate\<close>
  hands to \<^verbatim>\<open>loadUserProfile\<close>, with its receiver and the variables it closes over.
  \<^verbatim>\<open>verify\<close> completes by a plain call of \<^verbatim>\<open>verified\<close>.
  \<^verbatim>\<open>
  this.loadUserProfile(accessToken, function (err, profile) {
    if (err) {
      return this.fail(err);
    }
    function verified(err, user, info) { ... }
    if (this._passReqToCallback) {
      this.verify(req, accessToken, refreshToken, profile, verified);
    } else {
      this.verify(accessToken, refreshToken, profile, verified);
    }
  });
  \<close>
\<close>

definition authenticate_callback :: "request \<Rightarrow> jsval \<Rightarrow> jsval \<Rightarrow> callback" where
  "authenticate_callback req accessToken refreshToken this err prof =
     (if truthy err
      then (case this of None \<Rightarrow> ([], Some (JTypeError ''fail''))
                       | Some s \<Rightarrow> ([SignalFail err], None))
      else (case this of
              None \<Rightarrow> ([], Some (JTypeError ''_passReqToCallback''))
            | Some s \<Rightarrow>
                (let args = \<lparr> v_req = (if truthy (passReqToCallback s) then Some req else None),
                               v_accessToken = accessToken,
                               v_refreshToken = refreshToken,
                               v_profile = prof \<rparr>
                 in emit [VerifyCalled args]
                      (case verify s args of
                         CallsDone e u i \<Rightarrow> verified None e u i
                       | VerifyThrows x \<Rightarrow> ([], Some x)
                       | NoCompletion \<Rightarrow> ([], None)))))"

text \<open>
  Lines 68 and 69: \<^verbatim>\<open>req.body[k] || req.query[k] || req.headers[k]\<close>. The operands
  are evaluated from the left, each only when the ones before it were falsy.
\<close>

definition extract_token :: "string \<Rightarrow> request \<Rightarrow> jsval + jsval" where
  "extract_token k req =
     and_then (get_prop (body req) k) (\<lambda>b.
       if truthy b then Inr b
       else and_then (get_prop (query req) k) (\<lambda>q.
         if truthy q then Inr q
         else get_prop (headers req) k))"

text \<open>
  \<^verbatim>\<open>authenticate(req)\<close>, called by the framework as a method of the strategy.
  \<^verbatim>\<open>
  if (req.query && req.query.error) {
    return this.fail();
  }
  if (!req.body) {
    return this.fail();
  }
  const accessToken = req.body.access_token || req.query.access_token || req.headers.access_token;
  const refreshToken = req.body.refresh_token || req.query.refresh_token || req.headers.refresh_token;
  \<close>
\<close>

definition authenticate :: "strategy \<Rightarrow> (jsval \<Rightarrow> jsval + jsval) \<Rightarrow> request \<Rightarrow> run" where
  "authenticate this parse req =
     (if truthy (query req) \<and> truthy (read_prop (query req) ''error'')
      then ([SignalFail JUndefined], None)
      else if \<not> truthy (body req)
      then ([SignalFail JUndefined], None)
      else (case extract_token ''access_token'' req of
              Inl e \<Rightarrow> ([], Some e)
            | Inr accessToken \<Rightarrow>
                (case extract_token ''refresh_token'' req of
                   Inl e \<Rightarrow> ([], Some e)
                 | Inr refreshToken \<Rightarrow>
                     loadUserProfile this parse accessToken
                       (authenticate_callback req accessToken refreshToken))))"

section \<open>A parser for a fragment of JSON\<close>

text \<open>
  \<^verbatim>\<open>JSON.parse\<close> belongs to the language, not to the package, so \<open>userProfile\<close>
  takes it as the parameter \<open>parse\<close> and the theorems below hold for every such
  function. To run the code on concrete response bodies, this section defines one
  instance: a parser for the JSON texts made of objects, arrays, strings with the
  two-character escapes, integers and the three literals. It rejects every other text
  (fractions, exponents, unicode escapes) and every argument that is not a string.
  The recursion is bounded by the length of the text.
\<close>

definition dquote :: char where
  "dquote = CHR 0x22"

definition backslash :: char where
  "backslash = CHR 0x5C"

definition is_ws :: "char \<Rightarrow> bool" where
  "is_ws c = (c = CHR '' '' \<or> c = CHR 0x09 \<or> c = CHR 0x0A \<or> c = CHR 0x0D)"

definition skip_ws :: "string \<Rightarrow> string" where
  "skip_ws cs = dropWhile is_ws cs"

definition unescape :: "char \<Rightarrow> char option" where
  "unescape c =
     (if c = dquote then Some dquote
      else if c = backslash then Some backslash
      else if c = CHR ''/'' then Some CHR ''/''
      else if c = CHR ''b'' then Some (CHR 0x08)
      else if c = CHR ''f'' then Some (CHR 0x0C)
      else if c = CHR ''n'' then Some (CHR 0x0A)
      else if c = CHR ''r'' then Some (CHR 0x0D)
      else if c = CHR ''t'' then Some (CHR 0x09)
      else None)"

text \<open>The characters of a string after its opening quote, and the text after it.\<close>

fun parse_chars :: "string \<Rightarrow> (string \<times> string) option" where
  "parse_chars [] = None"
| "parse_chars [c] = (if c = dquote then Some ([], []) else None)"
| "parse_chars (c # d # cs) =
     (if c = dquote then Some ([], d # cs)
      else if c = backslash then
        (case unescape d of
           None \<Rightarrow> None
         | Some ch \<Rightarrow> map_option (\<lambda>(s, r). (ch # s, r)) (parse_chars cs))
      else if of_char c < (32::nat) then None
      else map_option (\<lambda>(s, r). (c # s, r)) (parse_chars (d # cs)))"

definition is_digit :: "char \<Rightarrow> bool" where
  "is_digit c = (48 \<le> (of_char c :: nat) \<and> (of_char c :: nat) \<le> 57)"

definition digits_value :: "string \<Rightarrow> int" where
  "digits_value ds = foldl (\<lambda>n c. 10 * n + (of_char c - 48)) 0 ds"

definition parse_int :: "string \<Rightarrow> (jsval \<times> string) option" where
  "parse_int cs =
     (let neg = (cs \<noteq> [] \<and> hd cs = CHR ''-'');
          cs1 = (if neg then tl cs else cs);
          ds = takeWhile is_digit cs1;
          rest = dropWhile is_digit cs1
      in if ds = [] \<or> (hd ds = CHR ''0'' \<and> length ds > 1) then None
         else if rest \<noteq> [] \<and> (hd rest = CHR ''.'' \<or> hd rest = CHR ''e'' \<or> hd rest = CHR ''E'') then None
         else Some (JNum (if neg then - digits_value ds else digits_value ds), rest))"

definition strip_prefix :: "string \<Rightarrow> string \<Rightarrow> string option" where
  "strip_prefix p cs = (if take (length p) cs = p then Some (drop (length p) cs) else None)"

fun parse_value :: "nat \<Rightarrow> string \<Rightarrow> (jsval \<times> string) option"
and parse_elements :: "nat \<Rightarrow> jsval list \<Rightarrow> string \<Rightarrow> (jsval \<times> string) option"
and parse_members :: "nat \<Rightarrow> (string \<times> jsval) list \<Rightarrow> string \<Rightarrow> (jsval \<times> string) option" where
  "parse_value 0 cs = None"
| "parse_value (Suc n) cs =
     (case skip_ws cs of
        [] \<Rightarrow> None
      | c # rest \<Rightarrow>
          if c = CHR ''{'' then
            (case skip_ws rest of
               [] \<Rightarrow> None
             | d # rest' \<Rightarrow> if d = CHR ''}'' then Some (JObj [], rest') else parse_members n [] rest)
          else if c = CHR ''['' then
            (case skip_ws rest of
               [] \<Rightarrow> None
             | d # rest' \<Rightarrow> if d = CHR '']'' then Some (JArr [], rest') else parse_elements n [] rest)
          else if c = dquote then map_option (\<lambda>(s, r). (JStr s, r)) (parse_chars rest)
          else if c = CHR ''t'' then map_option (Pair (JBool True)) (strip_prefix ''true'' (c # rest))
          else if c = CHR ''f'' then map_option (Pair (JBool False)) (strip_prefix ''false'' (c # rest))
          else if c = CHR ''n'' then map_option (Pair JNull) (strip_prefix ''null'' (c # rest))
          else parse_int (c # rest))"
| "parse_elements 0 acc cs = None"
| "parse_elements (Suc n) acc cs =
     (case parse_value n cs of
        None \<Rightarrow> None
      | Some (v, r) \<Rightarrow>
          (case skip_ws r of
             [] \<Rightarrow> None
           | d # r' \<Rightarrow>
               if d = CHR '','' then parse_elements n (acc @ [v]) r'
               else if d = CHR '']'' then Some (JArr (acc @ [v]), r')
               else None))"
| "parse_members 0 acc cs = None"
| "parse_members (Suc n) acc cs =
     (case skip_ws cs of
        [] \<Rightarrow> None
      | q # r0 \<Rightarrow>
          if q \<noteq> dquote then None
          else (case parse_chars r0 of
                  None \<Rightarrow> None
                | Some (k, r1) \<Rightarrow>
                    (case skip_ws r1 of
                       [] \<Rightarrow> None
                     | colon # r2 \<Rightarrow>
                         if colon \<noteq> CHR '':'' then None
                         else (case parse_value n r2 of
                                 None \<Rightarrow> None
                               | Some (v, r3) \<Rightarrow>
                                   (case skip_ws r3 of
                                      [] \<Rightarrow> None
                                    | d # r4 \<Rightarrow>
                                        if d = CHR '','' then parse_members n (set_prop acc k v) r4
                                        else if d = CHR ''}'' then Some (JObj (set_prop acc k v), r4)
                                        else None)))))"

definition json_parse :: "jsval \<Rightarrow> jsval + jsval" where
  "json_parse text =
     (case text of
        JStr s \<Rightarrow>
          (case parse_value (Suc (length s)) s of
             None \<Rightarrow> Inl (JSyntaxError ''Unexpected token'')
           | Some (v, r) \<Rightarrow>
               if skip_ws r = [] then Inr v else Inl (JSyntaxError ''Unexpected token''))
      | _ \<Rightarrow> Inl (JSyntaxError ''Unexpected token''))"

section \<open>Example inputs\<close>

text \<open>The provider response of the specification's example, and the value it denotes.\<close>

definition ada_body :: string where
  \<open>ada_body = ''{"id":"42","name":"Ada Lovelace","family_name":"Lovelace","given_name":"Ada","email":"ada@example.com","picture":"http://x/y.png"}''\<close>

definition ada_json :: jsval where
  "ada_json = JObj [(''id'', JStr ''42''), (''name'', JStr ''Ada Lovelace''),
                    (''family_name'', JStr ''Lovelace''), (''given_name'', JStr ''Ada''),
                    (''email'', JStr ''ada@example.com''), (''picture'', JStr ''http://x/y.png'')]"

text \<open>
  A strategy as the constructor leaves it, for a given skip setting, a given answer of
  the provider to every GET, and a \<^verbatim>\<open>verify\<close> function that ends every call the
  same given way. \<^verbatim>\<open>passReqToCallback\<close> is not set.
\<close>

definition demo_strategy :: "skip_setting \<Rightarrow> jsval \<times> jsval \<Rightarrow> verify_result \<Rightarrow> strategy" where
  "demo_strategy skip response outcome =
     \<lparr> options = [(''clientID'', JStr ''123-456-789''), (''clientSecret'', JStr ''shhh-its-a-secret''),
                  (''authorizationURL'', JStr default_authorizationURL),
                  (''tokenURL'', JStr default_tokenURL)],
       verify = (\<lambda>args. outcome),
       strategy_name = ''google-token'',
       oauth2_get = (\<lambda>url token. response),
       skipUserProfile = skip,
       passReqToCallback = JUndefined \<rparr>"

text \<open>A request whose parsed body carries an access token, with empty query and headers.\<close>

definition token_request :: request where
  "token_request = \<lparr> query = JObj [], body = JObj [(''access_token'', JStr ''tok'')], headers = JObj [] \<rparr>"

text \<open>A completion callback that does nothing, and a \<^verbatim>\<open>verify\<close> that accepts a user.\<close>

definition silent_done :: callback where
  "silent_done this err prof = ([], None)"

definition accepting :: verify_result where
  "accepting = CallsDone JNull (JObj [(''id'', JNum 1)]) JUndefined"

text \<open>
  The callback of lines 71-93 as it behaves once its receiver is bound to the strategy
  (by \<^verbatim>\<open>.bind(this)\<close>, or written as an arrow function): the receiver of the call
  is ignored.
\<close>

definition bound_callback :: "strategy \<Rightarrow> request \<Rightarrow> jsval \<Rightarrow> jsval \<Rightarrow> callback" where
  "bound_callback s req accessToken refreshToken this err prof =
     authenticate_callback req accessToken refreshToken (Some s) err prof"

section \<open>Basic facts\<close>

lemma get_prop_truthy: "truthy v \<Longrightarrow> get_prop v k = Inr (read_prop v k)"
  by (cases v) simp_all

lemma json_parse_ada: "json_parse (JStr ada_body) = Inr ada_json"
  by code_simp

lemma json_parse_html: "json_parse (JStr ''<html>'') = Inl (JSyntaxError ''Unexpected token'')"
  by code_simp

lemma json_parse_null: "json_parse (JStr ''null'') = Inr JNull"
  by code_simp

lemma get_prop_nullish:
  "v = JUndefined \<or> v = JNull \<Longrightarrow> get_prop v k = Inl (JTypeError k)"
  by auto

lemma get_prop_defined:
  "v \<noteq> JUndefined \<Longrightarrow> v \<noteq> JNull \<Longrightarrow> get_prop v k = Inr (read_prop v k)"
  by (cases v) simp_all

lemma read_prop_missing: "k \<notin> fst ` set kvs \<Longrightarrow> read_prop (JObj kvs) k = JUndefined"
  using map_of_eq_None_iff [of kvs k] by simp

lemma make_profile_defined:
  "json \<noteq> JUndefined \<Longrightarrow> json \<noteq> JNull \<Longrightarrow>
   make_profile json raw =
     Inr \<lparr> provider = JStr ''google'',
           profile_id = read_prop json ''id'',
           displayName = read_prop json ''name'',
           name = \<lparr> familyName = read_prop json ''family_name'',
                    givenName = read_prop json ''given_name'',
                    middleName = read_prop json ''middle_name'' \<rparr>,
           gender = read_prop json ''gender'',
           emails = [ValueObject (read_prop json ''email'')],
           photos = [ValueObject (read_prop json ''picture'')],
           profile_json = json,
           profile_raw = raw \<rparr>"
  by (simp add: make_profile_def get_prop_defined)

lemma make_profile_nullish:
  "json = JUndefined \<or> json = JNull \<Longrightarrow> make_profile json raw = Inl (JTypeError ''id'')"
  by (auto simp: make_profile_def)

lemma callback_unbound:
  "authenticate_callback req a r None err p =
     ([], Some (JTypeError (if truthy err then ''fail'' else ''_passReqToCallback'')))"
  by (simp add: authenticate_callback_def)

lemma deliver_unbound:
  "deliver (authenticate_callback req a r) p = ([], Some (JTypeError ''fail''))"
  by (simp add: deliver_def callback_unbound emit_def)

lemma userProfile_unbound:
  "\<exists>e. userProfile this parse tok (authenticate_callback req a r) = ([OAuthGet userinfo_url tok], Some e)"
  by (simp add: userProfile_def callback_unbound deliver_unbound emit_def
           split: prod.split sum.split)

lemma loadUserProfile_unbound:
  "\<exists>evs e. loadUserProfile this parse tok (authenticate_callback req a r) = (evs, Some e)
     \<and> (evs = [] \<or> evs = [OAuthGet userinfo_url tok])"
  using userProfile_unbound [of this parse tok req a r]
  by (auto simp: loadUserProfile_def callback_unbound split: skip_setting.split prod.split sum.split)

lemma authenticate_past_guards:
  assumes "\<not> (truthy (query req) \<and> truthy (read_prop (query req) ''error''))"
      and "truthy (body req)"
  shows "\<exists>evs e. authenticate this parse req = (evs, Some e) \<and> (\<forall>ev \<in> set evs. \<exists>u t. ev = OAuthGet u t)"
proof (cases "extract_token ''access_token'' req")
  case (Inl e)
  with assms show ?thesis by (auto simp: authenticate_def)
next
  case at: (Inr accessToken)
  show ?thesis
  proof (cases "extract_token ''refresh_token'' req")
    case (Inl e)
    with at assms show ?thesis by (auto simp: authenticate_def)
  next
    case (Inr refreshToken)
    obtain evs e where
      "loadUserProfile this parse accessToken (authenticate_callback req accessToken refreshToken) = (evs, Some e)"
      "evs = [] \<or> evs = [OAuthGet userinfo_url accessToken]"
      using loadUserProfile_unbound by blast
    with at Inr assms show ?thesis by (auto simp: authenticate_def)
  qed
qed

lemma verified_bound:
  "verified (Some s) err user info =
     ([if truthy err then SignalError err
       else if \<not> truthy user then SignalFail info
       else SignalSuccess user info], None)"
  by (simp add: verified_def)

lemma verified_unbound:
  "verified None err user info =
     ([], Some (JTypeError (if truthy err then ''error''
                            else if \<not> truthy user then ''fail'' else ''success'')))"
  by (simp add: verified_def)

lemma loadUserProfile_skip_value:
  "truthy v \<Longrightarrow> skipUserProfile this = SkipValue v \<Longrightarrow>
   loadUserProfile this parse tok cb = cb None JNull None"
  by (simp add: loadUserProfile_def)

lemma loadUserProfile_skip_sync:
  "n \<le> 1 \<Longrightarrow> truthy v \<Longrightarrow> skipUserProfile this = SkipFunction n (Inr v) g \<Longrightarrow>
   loadUserProfile this parse tok cb = cb None JNull None"
  by (simp add: loadUserProfile_def)

lemma loadUserProfile_skip_async:
  "n > 1 \<Longrightarrow> g tok = (err, v) \<Longrightarrow> \<not> truthy err \<Longrightarrow> truthy v \<Longrightarrow>
   skipUserProfile this = SkipFunction n r g \<Longrightarrow>
   loadUserProfile this parse tok cb = cb None JNull None"
  by (simp add: loadUserProfile_def)

lemma json_parse_empty_object: "json_parse (JStr ''{}'') = Inr (JObj [])"
  by code_simp

lemma extract_token_example:
  "extract_token ''access_token'' token_request = Inr (JStr ''tok'')"
  "extract_token ''refresh_token'' token_request = Inr JUndefined"
  by (simp_all add: extract_token_def token_request_def)

lemma authenticate_token_request:
  "authenticate this parse token_request =
     loadUserProfile this parse (JStr ''tok'')
       (authenticate_callback token_request (JStr ''tok'') JUndefined)"
  by (simp add: authenticate_def extract_token_example) (simp add: token_request_def)

section \<open>The profile of the specification's example\<close>

text \<open>
  Claim C2. When the provider answers the GET without an error and with the body
  \<^verbatim>\<open>{"id":"42","name":"Ada Lovelace","family_name":"Lovelace","given_name":"Ada","email":"ada@example.com","picture":"http://x/y.png"}\<close>,
  which \<^verbatim>\<open>JSON.parse\<close> turns into the object \<open>ada_json\<close>, then \<open>userProfile\<close>
  issues the GET and calls its callback as \<^verbatim>\<open>done(null, profile)\<close> with a profile
  that has provider "google", id "42", displayName "Ada Lovelace", name.familyName
  "Lovelace", name.givenName "Ada", emails [{value: "ada@example.com"}] and photos
  [{value: "http://x/y.png"}]. That call is the whole run when the callback returns; when
  the callback throws, the exception is handed to the callback once more (line 137). The
  statement holds for every callback.
\<close>

theorem userProfile_ada_profile:
  assumes "oauth2_get this userinfo_url tok = (err, JStr ada_body)"
      and "\<not> truthy err"
      and "parse (JStr ada_body) = Inr ada_json"
  shows "\<exists>p. userProfile this parse tok cb =
               emit [OAuthGet userinfo_url tok]
                 (case cb None JNull (Some p) of
                    (evs, None) \<Rightarrow> (evs, None)
                  | (evs, Some e) \<Rightarrow> emit evs (cb None e None))
           \<and> provider p = JStr ''google''
           \<and> profile_id p = JStr ''42''
           \<and> displayName p = JStr ''Ada Lovelace''
           \<and> familyName (name p) = JStr ''Lovelace''
           \<and> givenName (name p) = JStr ''Ada''
           \<and> emails p = [ValueObject (JStr ''ada@example.com'')]
           \<and> photos p = [ValueObject (JStr ''http://x/y.png'')]"
proof -
  have "ada_json \<noteq> JUndefined" "ada_json \<noteq> JNull"
    by (simp_all add: ada_json_def)
  then obtain p where p: "make_profile ada_json (JStr ada_body) = Inr p"
    and fields: "provider p = JStr ''google''" "profile_id p = read_prop ada_json ''id''"
      "displayName p = read_prop ada_json ''name''"
      "familyName (name p) = read_prop ada_json ''family_name''"
      "givenName (name p) = read_prop ada_json ''given_name''"
      "emails p = [ValueObject (read_prop ada_json ''email'')]"
      "photos p = [ValueObject (read_prop ada_json ''picture'')]"
    using make_profile_defined [of ada_json "JStr ada_body"] by simp
  have run: "userProfile this parse tok cb =
               emit [OAuthGet userinfo_url tok]
                 (case cb None JNull (Some p) of
                    (evs, None) \<Rightarrow> (evs, None)
                  | (evs, Some e) \<Rightarrow> emit evs (cb None e None))"
    using assms p by (simp add: userProfile_def deliver_def)
  from fields have "profile_id p = JStr ''42''" "displayName p = JStr ''Ada Lovelace''"
    "familyName (name p) = JStr ''Lovelace''" "givenName (name p) = JStr ''Ada''"
    "emails p = [ValueObject (JStr ''ada@example.com'')]"
    "photos p = [ValueObject (JStr ''http://x/y.png'')]"
    by (simp_all add: ada_json_def)
  with run fields(1) show ?thesis by blast
qed

text \<open>
  Claim C2, at a concrete input: the provider answers with that body, \<open>parse\<close> is the
  parser of the JSON fragment, and the callback is the one of \<open>authenticate\<close> with its
  receiver bound, for a \<^verbatim>\<open>verify\<close> that never completes. The profile that
  \<^verbatim>\<open>verify\<close> is called with is the profile of the claim.
\<close>

theorem userProfile_ada_profile_witness:
  "\<exists>p. userProfile (demo_strategy (SkipValue (JBool False)) (JNull, JStr ada_body) NoCompletion)
          json_parse (JStr ''tok'')
          (bound_callback (demo_strategy (SkipValue (JBool False)) (JNull, JStr ada_body) NoCompletion)
             token_request (JStr ''tok'') JUndefined)
        = ([OAuthGet userinfo_url (JStr ''tok''),
            VerifyCalled \<lparr> v_req = None, v_accessToken = JStr ''tok'',
                           v_refreshToken = JUndefined, v_profile = Some p \<rparr>], None)
      \<and> provider p = JStr ''google''
      \<and> profile_id p = JStr ''42''
      \<and> displayName p = JStr ''Ada Lovelace''
      \<and> familyName (name p) = JStr ''Lovelace''
      \<and> givenName (name p) = JStr ''Ada''
      \<and> emails p = [ValueObject (JStr ''ada@example.com'')]
      \<and> photos p = [ValueObject (JStr ''http://x/y.png'')]"
proof -
  let ?s = "demo_strategy (SkipValue (JBool False)) (JNull, JStr ada_body) NoCompletion"
  let ?cb = "bound_callback ?s token_request (JStr ''tok'') JUndefined"
  have fetch: "oauth2_get ?s userinfo_url (JStr ''tok'') = (JNull, JStr ada_body)"
    by (simp add: demo_strategy_def)
  have ok: "\<not> truthy JNull" by simp
  have call: "?cb None JNull (Some p) =
      ([VerifyCalled \<lparr> v_req = None, v_accessToken = JStr ''tok'',
                       v_refreshToken = JUndefined, v_profile = Some p \<rparr>], None)" for p
    by (simp add: bound_callback_def authenticate_callback_def demo_strategy_def emit_def)
  show ?thesis
    using userProfile_ada_profile [where parse = json_parse and cb = ?cb, OF fetch ok json_parse_ada]
    by (simp add: call emit_def)
qed

section \<open>Errors of the profile fetch\<close>

text \<open>
  Claim C7. \<open>userProfile\<close> tells its two error cases apart. When the GET calls back
  with a truthy error, the callback receives an \<^verbatim>\<open>InternalOAuthError\<close> with the
  message "failed to fetch user profile" and that error as its cause. When the GET
  succeeds and \<^verbatim>\<open>JSON.parse\<close> throws, the callback receives the thrown exception
  itself. In both cases the profile argument is missing.
\<close>

theorem userProfile_error_kinds:
  assumes "oauth2_get this userinfo_url tok = (err, resp)"
  shows "(truthy err \<longrightarrow>
            userProfile this parse tok cb =
              emit [OAuthGet userinfo_url tok]
                (cb None (JInternalOAuthError ''failed to fetch user profile'' err) None))
       \<and> (\<not> truthy err \<longrightarrow> parse resp = Inl e \<longrightarrow>
            userProfile this parse tok cb = emit [OAuthGet userinfo_url tok] (cb None e None))"
  using assms by (simp add: userProfile_def)

text \<open>
  Claim C7, at concrete inputs: a connection error, and a body that is not JSON.
\<close>

theorem userProfile_error_kinds_witness:
  "userProfile (demo_strategy (SkipValue (JBool False)) (JStr ''ECONNRESET'', JUndefined) accepting)
      json_parse (JStr ''tok'') silent_done
     = emit [OAuthGet userinfo_url (JStr ''tok'')]
         (silent_done None (JInternalOAuthError ''failed to fetch user profile'' (JStr ''ECONNRESET'')) None)
   \<and> userProfile (demo_strategy (SkipValue (JBool False)) (JNull, JStr ''<html>'') accepting)
      json_parse (JStr ''tok'') silent_done
     = emit [OAuthGet userinfo_url (JStr ''tok'')]
         (silent_done None (JSyntaxError ''Unexpected token'') None)"
proof -
  let ?s1 = "demo_strategy (SkipValue (JBool False)) (JStr ''ECONNRESET'', JUndefined) accepting"
  let ?s2 = "demo_strategy (SkipValue (JBool False)) (JNull, JStr ''<html>'') accepting"
  have f1: "oauth2_get ?s1 userinfo_url (JStr ''tok'') = (JStr ''ECONNRESET'', JUndefined)"
    by (simp add: demo_strategy_def)
  have f2: "oauth2_get ?s2 userinfo_url (JStr ''tok'') = (JNull, JStr ''<html>'')"
    by (simp add: demo_strategy_def)
  show ?thesis
    using userProfile_error_kinds [OF f1, where parse = json_parse and cb = silent_done]
      userProfile_error_kinds [OF f2, where parse = json_parse and cb = silent_done
        and e = "JSyntaxError ''Unexpected token''"]
    by (simp add: json_parse_html)
qed

text \<open>
  Claim C10. Whenever a successfully parsed response yields a profile at all, its
  \<^verbatim>\<open>emails\<close> and \<^verbatim>\<open>photos\<close> are one-element arrays wrapping
  \<^verbatim>\<open>json.email\<close> and \<^verbatim>\<open>json.picture\<close>; for an object without the key the
  wrapped value is \<^verbatim>\<open>undefined\<close> and the array is never empty. Every parsed value
  other than \<^verbatim>\<open>null\<close> yields a profile, which is handed to the callback; on a parsed
  \<^verbatim>\<open>null\<close> the first property read throws and no profile is built.
\<close>

theorem userProfile_singleton_arrays:
  assumes "oauth2_get this userinfo_url tok = (err, resp)"
      and "\<not> truthy err"
      and "parse resp = Inr json"
  shows "(\<forall>p. make_profile json resp = Inr p \<longrightarrow>
            emails p = [ValueObject (read_prop json ''email'')]
          \<and> photos p = [ValueObject (read_prop json ''picture'')]
          \<and> (\<forall>kvs. json = JObj kvs \<longrightarrow>
                (''email'' \<notin> fst ` set kvs \<longrightarrow> emails p = [ValueObject JUndefined])
              \<and> (''picture'' \<notin> fst ` set kvs \<longrightarrow> photos p = [ValueObject JUndefined])))
       \<and> (json \<noteq> JUndefined \<and> json \<noteq> JNull \<longrightarrow>
            (\<exists>p. make_profile json resp = Inr p
               \<and> userProfile this parse tok cb = emit [OAuthGet userinfo_url tok] (deliver cb p)))
       \<and> (json = JNull \<longrightarrow>
            userProfile this parse tok cb = emit [OAuthGet userinfo_url tok] (cb None (JTypeError ''id'') None))"
proof (intro conjI allI impI)
  fix p assume p: "make_profile json resp = Inr p"
  then have defined: "json \<noteq> JUndefined" "json \<noteq> JNull"
    using make_profile_nullish [of json resp] by auto
  from p make_profile_defined [OF defined, of resp]
  show e: "emails p = [ValueObject (read_prop json ''email'')]"
    and ph: "photos p = [ValueObject (read_prop json ''picture'')]"
    by auto
  fix kvs assume j: "json = JObj kvs"
  show "emails p = [ValueObject JUndefined]" if "''email'' \<notin> fst ` set kvs"
    using e j read_prop_missing [OF that] by simp
  show "photos p = [ValueObject JUndefined]" if "''picture'' \<notin> fst ` set kvs"
    using ph j read_prop_missing [OF that] by simp
next
  assume "json \<noteq> JUndefined \<and> json \<noteq> JNull"
  then show "\<exists>p. make_profile json resp = Inr p
               \<and> userProfile this parse tok cb = emit [OAuthGet userinfo_url tok] (deliver cb p)"
    using assms by (simp add: userProfile_def make_profile_defined)
next
  assume "json = JNull"
  then show "userProfile this parse tok cb = emit [OAuthGet userinfo_url tok] (cb None (JTypeError ''id'') None)"
    using assms by (simp add: userProfile_def make_profile_nullish)
qed

text \<open>
  Claim C10, at a concrete input: the response body \<^verbatim>\<open>{}\<close> has neither key.
\<close>

theorem userProfile_singleton_arrays_witness:
  "\<exists>p. userProfile (demo_strategy (SkipValue (JBool False)) (JNull, JStr ''{}'') accepting)
          json_parse (JStr ''tok'') silent_done
        = emit [OAuthGet userinfo_url (JStr ''tok'')] (deliver silent_done p)
      \<and> emails p = [ValueObject JUndefined]
      \<and> photos p = [ValueObject JUndefined]"
proof -
  let ?s = "demo_strategy (SkipValue (JBool False)) (JNull, JStr ''{}'') accepting"
  have f: "oauth2_get ?s userinfo_url (JStr ''tok'') = (JNull, JStr ''{}'')"
    by (simp add: demo_strategy_def)
  have ok: "\<not> truthy JNull" by simp
  show ?thesis
    using userProfile_singleton_arrays [where parse = json_parse and cb = silent_done, OF f ok json_parse_empty_object]
    by auto
qed

section \<open>The constructor\<close>

text \<open>
  Claim C8. Constructing the strategy with \<^verbatim>\<open>undefined\<close> or \<^verbatim>\<open>null\<close> for
  \<^verbatim>\<open>options\<close> throws: the default \<^verbatim>\<open>options || {}\<close> only protects the local
  \<^verbatim>\<open>_options\<close>, and line 42 reads \<^verbatim>\<open>options.authorizationURL\<close> from the argument
  itself. With an object for \<^verbatim>\<open>options\<close> both reads succeed and the constructor of
  the base class is reached.
\<close>

theorem constructor_requires_options:
  "constructor super_ctor OptUndefined vfy = Inl (JTypeError ''authorizationURL'')
   \<and> constructor super_ctor OptNull vfy = Inl (JTypeError ''authorizationURL'')
   \<and> (\<exists>opts. constructor super_ctor (OptObject kvs) vfy =
         and_then (super_ctor opts vfy)
           (\<lambda>s. Inr (s\<lparr>options := opts, verify := vfy, strategy_name := ''google-token''\<rparr>)))"
proof (intro conjI)
  show "constructor super_ctor OptUndefined vfy = Inl (JTypeError ''authorizationURL'')"
    by (simp add: constructor_def)
  show "constructor super_ctor OptNull vfy = Inl (JTypeError ''authorizationURL'')"
    by (simp add: constructor_def)
  show "\<exists>opts. constructor super_ctor (OptObject kvs) vfy =
         and_then (super_ctor opts vfy)
           (\<lambda>s. Inr (s\<lparr>options := opts, verify := vfy, strategy_name := ''google-token''\<rparr>))"
    unfolding constructor_def Let_def by (simp, rule exI, rule refl)
qed

section \<open>Token extraction\<close>

text \<open>
  Claim C3 says that a token is taken from the body when it appears there, from the query
  string when it is absent from the body, and from the headers when it is absent from
  both. As stated this fails on two requests. A body whose \<^verbatim>\<open>access_token\<close> is the
  empty string and a query string with a token: the token of the query string is used,
  not the value of the body. A request without a query object whose token is only in the
  headers: the read of \<^verbatim>\<open>req.query.access_token\<close> throws and no header value is
  used.
\<close>

theorem extract_token_counterexample:
  "extract_token ''access_token''
     \<lparr> query = JObj [(''access_token'', JStr ''from-query'')],
       body = JObj [(''access_token'', JStr '''')],
       headers = JObj [] \<rparr> = Inr (JStr ''from-query'')
   \<and> extract_token ''access_token''
     \<lparr> query = JUndefined,
       body = JObj [(''refresh_token'', JStr ''r'')],
       headers = JObj [(''access_token'', JStr ''from-header'')] \<rparr> = Inl (JTypeError ''access_token'')"
  by (simp add: extract_token_def)

text \<open>
  Claim C3, as amended. For \<^verbatim>\<open>access_token\<close> and for \<^verbatim>\<open>refresh_token\<close> alike
  (any key \<open>k\<close>), the sources are tried in the order body, query string, headers, and
  the test is truthiness: a truthy value of the body is used; when the value of the body
  is falsy or absent and the query object can be read, a truthy value of the query string
  is used; when that one is falsy or absent too, the result is whatever the read of the
  headers gives.
\<close>

theorem extract_token_first_truthy:
  assumes "get_prop (body req) k = Inr b"
  shows "(truthy b \<longrightarrow> extract_token k req = Inr b)
       \<and> (\<not> truthy b \<longrightarrow> get_prop (query req) k = Inr q \<longrightarrow>
            (truthy q \<longrightarrow> extract_token k req = Inr q)
          \<and> (\<not> truthy q \<longrightarrow> extract_token k req = get_prop (headers req) k))"
  using assms by (simp add: extract_token_def)

text \<open>
  Claim C3 as amended, at three concrete requests: the token in all three places, the
  token in query string and headers only, and the token in the headers only.
\<close>

theorem extract_token_first_truthy_witness:
  "extract_token ''access_token''
     \<lparr> query = JObj [(''access_token'', JStr ''from-query'')],
       body = JObj [(''access_token'', JStr ''from-body'')],
       headers = JObj [(''access_token'', JStr ''from-header'')] \<rparr> = Inr (JStr ''from-body'')
   \<and> extract_token ''refresh_token''
     \<lparr> query = JObj [(''refresh_token'', JStr ''from-query'')],
       body = JObj [(''access_token'', JStr ''from-body'')],
       headers = JObj [(''refresh_token'', JStr ''from-header'')] \<rparr> = Inr (JStr ''from-query'')
   \<and> extract_token ''access_token''
     \<lparr> query = JObj [],
       body = JObj [(''refresh_token'', JStr ''from-body'')],
       headers = JObj [(''access_token'', JStr ''from-header'')] \<rparr> = Inr (JStr ''from-header'')"
proof -
  let ?r1 = "\<lparr> query = JObj [(''access_token'', JStr ''from-query'')],
       body = JObj [(''access_token'', JStr ''from-body'')],
       headers = JObj [(''access_token'', JStr ''from-header'')] \<rparr>"
  let ?r2 = "\<lparr> query = JObj [(''refresh_token'', JStr ''from-query'')],
       body = JObj [(''access_token'', JStr ''from-body'')],
       headers = JObj [(''refresh_token'', JStr ''from-header'')] \<rparr>"
  let ?r3 = "\<lparr> query = JObj [],
       body = JObj [(''refresh_token'', JStr ''from-body'')],
       headers = JObj [(''access_token'', JStr ''from-header'')] \<rparr>"
  have b1: "get_prop (body ?r1) ''access_token'' = Inr (JStr ''from-body'')" by simp
  have b2: "get_prop (body ?r2) ''refresh_token'' = Inr JUndefined" by simp
  have b3: "get_prop (body ?r3) ''access_token'' = Inr JUndefined" by simp
  show ?thesis
    using extract_token_first_truthy [OF b1]
      extract_token_first_truthy [OF b2, of "JStr ''from-query''"]
      extract_token_first_truthy [OF b3, of JUndefined]
    by simp
qed

text \<open>
  Claim C9. When the body is present and has no truthy \<^verbatim>\<open>access_token\<close>, token
  extraction reads \<^verbatim>\<open>req.query.access_token\<close> without testing that
  \<^verbatim>\<open>req.query\<close> exists; on a request without a query object the guard of line 58 is
  skipped, the read throws a TypeError, and \<open>authenticate\<close> ends with that exception and
  without any of the three signals.
\<close>

theorem authenticate_missing_query:
  assumes "truthy (body req)"
      and "\<not> truthy (read_prop (body req) ''access_token'')"
  shows "extract_token ''access_token'' req =
           and_then (get_prop (query req) ''access_token'')
             (\<lambda>q. if truthy q then Inr q else get_prop (headers req) ''access_token'')
       \<and> (query req = JUndefined \<or> query req = JNull \<longrightarrow>
            authenticate this parse req = ([], Some (JTypeError ''access_token'')))"
proof -
  have b: "get_prop (body req) ''access_token'' = Inr (read_prop (body req) ''access_token'')"
    using assms(1) by (rule get_prop_truthy)
  with assms(2) have ex: "extract_token ''access_token'' req =
           and_then (get_prop (query req) ''access_token'')
             (\<lambda>q. if truthy q then Inr q else get_prop (headers req) ''access_token'')"
    by (simp add: extract_token_def)
  have "authenticate this parse req = ([], Some (JTypeError ''access_token''))"
    if "query req = JUndefined \<or> query req = JNull"
    using that assms(1) ex by (auto simp: authenticate_def)
  with ex show ?thesis by blast
qed

text \<open>
  Claim C9, at a concrete request: no query object, a body without a token, the token in
  the headers.
\<close>

theorem authenticate_missing_query_witness:
  "extract_token ''access_token''
     \<lparr> query = JUndefined, body = JObj [(''user'', JStr ''ada'')],
       headers = JObj [(''access_token'', JStr ''tok'')] \<rparr>
     = Inl (JTypeError ''access_token'')
   \<and> authenticate (demo_strategy (SkipValue (JBool False)) (JNull, JStr ada_body) accepting) json_parse
     \<lparr> query = JUndefined, body = JObj [(''user'', JStr ''ada'')],
       headers = JObj [(''access_token'', JStr ''tok'')] \<rparr>
     = ([], Some (JTypeError ''access_token''))"
proof -
  let ?req = "\<lparr> query = JUndefined, body = JObj [(''user'', JStr ''ada'')],
       headers = JObj [(''access_token'', JStr ''tok'')] \<rparr>"
  have b: "truthy (body ?req)" by simp
  have t: "\<not> truthy (read_prop (body ?req) ''access_token'')" by simp
  show ?thesis
    using authenticate_missing_query [OF b t,
        of "demo_strategy (SkipValue (JBool False)) (JNull, JStr ada_body) accepting" json_parse]
    by simp
qed

section \<open>The error parameter of the query string\<close>

text \<open>
  Claim C6 says that every request that carries an \<^verbatim>\<open>error\<close> query parameter
  fails at once, without a network call. The guard of line 58 tests the value of the
  parameter for truthiness, so a request with \<^verbatim>\<open>?error=\<close> (the empty string) passes
  it: the profile is fetched from the provider and no failure is signalled.
\<close>

theorem authenticate_empty_error_counterexample:
  "authenticate (demo_strategy (SkipValue (JBool False)) (JNull, JStr ada_body) accepting) json_parse
     \<lparr> query = JObj [(''error'', JStr '''')],
       body = JObj [(''access_token'', JStr ''tok'')],
       headers = JObj [] \<rparr>
   = ([OAuthGet userinfo_url (JStr ''tok'')], Some (JTypeError ''fail''))"
  by (simp add: authenticate_def extract_token_def loadUserProfile_def userProfile_def
        demo_strategy_def json_parse_ada make_profile_defined ada_json_def deliver_unbound emit_def)

text \<open>
  Claim C6, as amended. Every request whose query object has a truthy \<^verbatim>\<open>error\<close>
  value (any non-empty string) makes \<open>authenticate\<close> signal failure without a reason;
  this is all it does: no other signal, no network call, no exception.
\<close>

theorem authenticate_error_parameter:
  assumes "truthy (query req)" and "truthy (read_prop (query req) ''error'')"
  shows "authenticate this parse req = ([SignalFail JUndefined], None)"
  using assms by (simp add: authenticate_def)

text \<open>
  Claim C6 as amended, at a concrete request with \<^verbatim>\<open>?error=access_denied\<close>.
\<close>

theorem authenticate_error_parameter_witness:
  "authenticate (demo_strategy (SkipValue (JBool False)) (JNull, JStr ada_body) accepting) json_parse
     \<lparr> query = JObj [(''error'', JStr ''access_denied'')],
       body = JObj [(''access_token'', JStr ''tok'')],
       headers = JObj [] \<rparr>
   = ([SignalFail JUndefined], None)"
  by (rule authenticate_error_parameter) simp_all

section \<open>The receiver of the callbacks\<close>

text \<open>
  The callback of lines 71-93 and the nested \<^verbatim>\<open>verified\<close> are ordinary functions,
  not arrow functions, and they are invoked by plain calls (\<^verbatim>\<open>done(null)\<close>,
  \<^verbatim>\<open>done(e)\<close>, \<^verbatim>\<open>done(err, user, info)\<close>). Their \<^verbatim>\<open>this\<close> is therefore
  undefined, and each of them throws a TypeError at its first use of \<^verbatim>\<open>this\<close>. Every
  request that passes the two guards of \<open>authenticate\<close> ends that way, without a signal
  (lemma \<open>authenticate_past_guards\<close>).
\<close>

section \<open>Errors of the profile acquisition\<close>




section \<open>Skipping the profile and completing the verification\<close>

text \<open>
  Claim C4 says that with a skip setting that yields true the verification callback
  receives an absent profile. \<open>loadUserProfile\<close> indeed completes with
  \<^verbatim>\<open>done(null)\<close> and without a network call (lemmas \<open>loadUserProfile_skip_value\<close>,
  \<open>loadUserProfile_skip_sync\<close>, \<open>loadUserProfile_skip_async\<close>), but the callback then
  throws on \<^verbatim>\<open>this._passReqToCallback\<close>: in each of the three forms of the setting the
  run has no call of \<^verbatim>\<open>verify\<close>.
\<close>

theorem authenticate_skip_never_verifies:
  "authenticate (demo_strategy (SkipValue (JBool True)) response accepting) parse token_request
     = ([], Some (JTypeError ''_passReqToCallback''))
   \<and> authenticate (demo_strategy (SkipFunction 0 (Inr (JBool True)) on_call_cb) response accepting)
        parse token_request
     = ([], Some (JTypeError ''_passReqToCallback''))
   \<and> authenticate (demo_strategy (SkipFunction 2 on_call (\<lambda>token. (JNull, JBool True))) response accepting)
        parse token_request
     = ([], Some (JTypeError ''_passReqToCallback''))"
  by (simp add: authenticate_token_request loadUserProfile_def demo_strategy_def callback_unbound)

text \<open>
  Claim C5 says that \<^verbatim>\<open>done(error, user, info)\<close> is mapped to the error, failure
  and success outcomes. Called the way a verification callback calls it, \<^verbatim>\<open>verified\<close>
  throws in each of the three branches instead (with a bound receiver it would signal as
  claimed, lemma \<open>verified_bound\<close>), and \<open>authenticate\<close> does not get as far as
  calling \<^verbatim>\<open>verify\<close>.
\<close>

theorem verified_plain_call_escapes:
  "verified None JNull (JBool False) (JObj [(''message'', JStr ''denied'')])
     = ([], Some (JTypeError ''fail''))
   \<and> verified None JNull (JObj [(''id'', JNum 1)]) JUndefined
     = ([], Some (JTypeError ''success''))
   \<and> verified None (JStr ''boom'') JUndefined JUndefined
     = ([], Some (JTypeError ''error''))
   \<and> authenticate (demo_strategy (SkipValue (JBool True)) response
        (CallsDone JNull (JBool False) (JObj [(''message'', JStr ''denied'')]))) parse token_request
     = ([], Some (JTypeError ''_passReqToCallback''))"
  by (simp add: verified_unbound authenticate_token_request loadUserProfile_def demo_strategy_def
        callback_unbound)

end
